theory Spec2Isabelle
  imports Complex_Main
begin

section \<open>SimpleDraggable: a shallow embedding of \<^verbatim>\<open>src/SImpleDraggable.js\<close>\<close>

subsection \<open>JavaScript values the class computes with\<close>

text \<open>
  Every number of the class is a JavaScript number or, before the first assignment of a
  field and for a property a parsed object does not have, \<^verbatim>\<open>undefined\<close>. A finite
  number is modelled by the real it denotes; \<open>NaN\<close> is kept because a field that was
  never set up takes part in arithmetic and comparisons. The infinities are left out.
\<close>

datatype num = Num real | NaN | Undefined

text \<open>
  What \<^verbatim>\<open>JSON.parse\<close> returns, as far as the class looks at it: \<^verbatim>\<open>null\<close>; a primitive
  (number, string, boolean) with its truthiness; or an object, of which only the
  properties \<^verbatim>\<open>x\<close> and \<^verbatim>\<open>y\<close> are read (\<open>Undefined\<close> when absent). Properties that
  hold something other than a number are outside the model.
\<close>

datatype json = JNull | JPrim bool | JObj num num

text \<open>
  The parts of the JavaScript runtime the class calls and the repository does not
  contain: \<^verbatim>\<open>JSON.parse\<close> (\<open>None\<close> when it throws), the conversion of a number inside a
  template literal, \<^verbatim>\<open>JSON.stringify\<close> of the object \<^verbatim>\<open>{x: .., y: ..}\<close>, and the
  rounding \<open>fl\<close> of the exact result of an addition or subtraction to the double that the
  operator returns.
\<close>

record runtime =
  json_parse :: "string \<Rightarrow> json option"
  num_str :: "num \<Rightarrow> string"
  json_stringify :: "num \<Rightarrow> num \<Rightarrow> string"
  fl :: "real \<Rightarrow> real"

text \<open>The binary operators \<^verbatim>\<open>-\<close> and \<^verbatim>\<open>+\<close> on such operands: both are converted
  with ToNumber, which sends \<^verbatim>\<open>undefined\<close> to \<open>NaN\<close>, and the exact result is rounded.\<close>

fun nsub :: "runtime \<Rightarrow> num \<Rightarrow> num \<Rightarrow> num" where
  "nsub rt (Num a) (Num b) = Num (fl rt (a - b))"
| "nsub rt _ _ = NaN"

fun nadd :: "runtime \<Rightarrow> num \<Rightarrow> num \<Rightarrow> num" where
  "nadd rt (Num a) (Num b) = Num (fl rt (a + b))"
| "nadd rt _ _ = NaN"

text \<open>The comparison \<^verbatim>\<open>a < b\<close>: false as soon as one side is not a number.\<close>

fun nlt :: "num \<Rightarrow> num \<Rightarrow> bool" where
  "nlt (Num a) (Num b) = (a < b)"
| "nlt _ _ = False"

text \<open>\<^verbatim>\<open>Math.abs\<close>.\<close>

fun nabs :: "num \<Rightarrow> num" where
  "nabs (Num a) = Num \<bar>a\<bar>"
| "nabs _ = NaN"

subsection \<open>The host page\<close>

record rect =
  r_left :: real
  r_top :: real
  r_width :: real
  r_height :: real

text \<open>The six size metrics of \<^verbatim>\<open>document.body\<close> and \<^verbatim>\<open>document.documentElement\<close>.\<close>

record box =
  scrollHeight :: real
  offsetHeight :: real
  clientHeight :: real
  scrollWidth :: real
  offsetWidth :: real
  clientWidth :: real

text \<open>
  The answers of the host to the queries of one operation:
  \<^verbatim>\<open>getComputedStyle(element)\<close> (the position keyword, and \<^verbatim>\<open>parseFloat\<close> of the four
  border shorthands), \<^verbatim>\<open>element.getBoundingClientRect()\<close>, the viewport
  (\<open>visualViewport\<close> is \<open>None\<close> where the browser has none; the pair is width, height),
  and the document metrics with the scroll position.
\<close>

record env =
  css_position :: string
  borderLeft :: num
  borderRight :: num
  borderTop :: num
  borderBottom :: num
  boundingClientRect :: rect
  visualViewport :: "(real \<times> real) option"
  innerWidth :: real
  innerHeight :: real
  body :: box
  documentElement :: box
  scrollX :: real
  scrollY :: real

text \<open>
  What the instance touches outside itself: \<^verbatim>\<open>localStorage\<close>, the two data attributes
  and the \<^verbatim>\<open>translate\<close> style of the element, and which of its four bound handlers
  are registered (\<^verbatim>\<open>mousedown\<close> on the handle; \<^verbatim>\<open>storage\<close>, \<^verbatim>\<open>mousemove\<close> and
  \<^verbatim>\<open>mouseup\<close> on the window).
\<close>

record page =
  storage :: "string \<rightharpoonup> string"
  dataset_translate :: "string option"
  dataset_draggable :: "string option"
  style_translate :: string
  on_mousedown :: bool
  on_storage :: bool
  on_mousemove :: bool
  on_mouseup :: bool

text \<open>
  The instance: the page it acts on, extended with the fields of \<^verbatim>\<open>this\<close>. Pairs are
  \<open>(x, y)\<close>. The live style object \<^verbatim>\<open>this.styles\<close> is read through \<open>env\<close>.
\<close>

record sd = page +
  id_s :: string
  store :: bool
  enabled :: bool
  position :: "string option"
  elementRect :: "rect option"
  dimensions :: "(real \<times> real) option"
  borderH :: num
  borderV :: num
  thresholdX :: num
  thresholdY :: num
  pos_1 :: num
  pos_2 :: num
  pos_3 :: num
  pos_4 :: num
  translateX :: num
  translateY :: num
  offsetLeft :: num
  offsetTop :: num

record mouse_event =
  on_handle :: bool
  button :: int
  clientX :: real
  clientY :: real

record storage_event =
  key :: "string option"
  newValue :: "string option"

datatype error = Error string | TypeError

subsection \<open>Strings the class builds\<close>

text \<open>The template \<^verbatim>\<open>`{"x":${x}, "y":${y}}`\<close> written to \<^verbatim>\<open>dataset.translate\<close>.\<close>

definition translate_attr :: "runtime \<Rightarrow> num \<Rightarrow> num \<Rightarrow> string" where
  \<open>translate_attr rt x y = ''{"x":'' @ num_str rt x @ '', "y":'' @ num_str rt y @ ''}''\<close>

text \<open>The literal \<^verbatim>\<open>`{"x":0,"y":0}`\<close>.\<close>

definition zero_attr :: string where
  \<open>zero_attr = ''{"x":0,"y":0}''\<close>

text \<open>The template \<^verbatim>\<open>`${x}px ${y}px`\<close> written to \<^verbatim>\<open>style.translate\<close>.\<close>

definition translate_css :: "runtime \<Rightarrow> num \<Rightarrow> num \<Rightarrow> string" where
  "translate_css rt x y = num_str rt x @ ''px '' @ num_str rt y @ ''px''"

subsection \<open>Geometry\<close>

text \<open>\<^verbatim>\<open>getViewport()\<close> and \<^verbatim>\<open>getDocDimensions()\<close>; the result is \<open>(x, y)\<close>.\<close>

definition getViewport :: "env \<Rightarrow> real \<times> real" where
  "getViewport ev =
     (case visualViewport ev of
        Some (w, h) \<Rightarrow> (w, h)
      | None \<Rightarrow> (innerWidth ev, innerHeight ev))"

definition getDocDimensions :: "runtime \<Rightarrow> env \<Rightarrow> real \<times> real" where
  "getDocDimensions rt ev =
     (let y = Max {scrollHeight (body ev), scrollHeight (documentElement ev),
                   offsetHeight (body ev), offsetHeight (documentElement ev),
                   clientHeight (body ev), clientHeight (documentElement ev)};
          x = Max {scrollWidth (body ev), scrollWidth (documentElement ev),
                   offsetWidth (body ev), offsetWidth (documentElement ev),
                   clientWidth (body ev), clientWidth (documentElement ev)}
      in (fl rt (x - scrollX ev), fl rt (y - scrollY ev)))"

text \<open>\<^verbatim>\<open>this.position === "fixed" ? this.getViewport() : this.getDocDimensions()\<close>.\<close>

definition container :: "runtime \<Rightarrow> env \<Rightarrow> string option \<Rightarrow> real \<times> real" where
  "container rt ev p = (if p = Some ''fixed'' then getViewport ev else getDocDimensions rt ev)"

text \<open>\<^verbatim>\<open>_getThresholds(top, left)\<close>; the result is \<open>(x, y)\<close>.\<close>

definition getThresholds :: "runtime \<Rightarrow> 'a sd_scheme \<Rightarrow> num \<Rightarrow> num \<Rightarrow> num \<times> num" where
  "getThresholds rt s top' left =
     (let x = (if nlt (nsub rt (thresholdX s) left) (Num 0) then nsub rt (thresholdX s) left
               else if nlt left (Num 0) then nabs left
               else Num 0);
          y = (if nlt (nsub rt (thresholdY s) top') (Num 0) then nsub rt (thresholdY s) top'
               else if nlt top' (Num 0) then nabs top'
               else Num 0)
      in (x, y))"

subsection \<open>Property reads and truthiness\<close>

text \<open>\<^verbatim>\<open>v.x\<close> and \<^verbatim>\<open>v.y\<close> for a value that is not \<^verbatim>\<open>null\<close> (a primitive has neither).\<close>

fun prop_x :: "json \<Rightarrow> num" where
  "prop_x (JObj x y) = x"
| "prop_x _ = Undefined"

fun prop_y :: "json \<Rightarrow> num" where
  "prop_y (JObj x y) = y"
| "prop_y _ = Undefined"

fun truthy :: "json \<Rightarrow> bool" where
  "truthy JNull = False"
| "truthy (JPrim b) = b"
| "truthy (JObj x y) = True"

fun is_num :: "num \<Rightarrow> bool" where
  "is_num (Num a) = True"
| "is_num _ = False"

text \<open>
  The assignment \<^verbatim>\<open>element.style.translate = `${x}px ${y}px`\<close>. The host keeps the old
  value when the string is not a valid length pair, which is the case when a number
  prints as \<^verbatim>\<open>NaN\<close> or \<^verbatim>\<open>undefined\<close>.
\<close>

definition assign_translate :: "runtime \<Rightarrow> num \<Rightarrow> num \<Rightarrow> sd \<Rightarrow> sd" where
  "assign_translate rt x y s =
     (if is_num x \<and> is_num y then s\<lparr>style_translate := translate_css rt x y\<rparr> else s)"

subsection \<open>The methods\<close>

text \<open>
  \<^verbatim>\<open>_setProperties()\<close>. An exception is returned with the state it leaves behind:
  the stored value is already removed when the position check throws.
\<close>

definition setProperties :: "runtime \<Rightarrow> env \<Rightarrow> sd \<Rightarrow> (error \<times> sd) + sd" where
  "setProperties rt ev s =
     (let s1 = (if \<not> store s then s\<lparr>storage := (storage s)(id_s s := None)\<rparr> else s);
          s2 = s1\<lparr>position := Some (css_position ev)\<rparr>
      in if enabled s2 \<and> position s2 \<noteq> Some ''fixed'' \<and> position s2 \<noteq> Some ''absolute''
         then Inl (Error (''Element position cannot be '' @ css_position ev @
                          ''. Use fixed or absolute instead!''), s2)
         else
           (let r = boundingClientRect ev;
                d = container rt ev (position s2);
                bH = nadd rt (borderLeft ev) (borderRight ev);
                bV = nadd rt (borderTop ev) (borderBottom ev)
            in Inr (s2\<lparr>elementRect := Some r,
                       dimensions := Some d,
                       borderH := bH,
                       borderV := bV,
                       thresholdX := nsub rt (Num (fst d)) (nadd rt (Num (r_width r)) bH),
                       thresholdY := nsub rt (Num (snd d)) (nadd rt (Num (r_height r)) bV),
                       dataset_translate := Some zero_attr,
                       pos_1 := Num 0, pos_2 := Num 0, pos_3 := Num 0, pos_4 := Num 0,
                       translateX := Num 0, translateY := Num 0,
                       offsetLeft := Num (r_left r),
                       offsetTop := Num (r_top r)\<rparr>)))"

text \<open>
  \<^verbatim>\<open>_mousedown(e)\<close>. The \<^verbatim>\<open>try\<close> covers the parse only: reading \<^verbatim>\<open>translate.x\<close> of
  a parsed \<^verbatim>\<open>null\<close> throws a TypeError after the first three assignments.
\<close>

definition mousedown :: "runtime \<Rightarrow> env \<Rightarrow> mouse_event \<Rightarrow> sd \<Rightarrow> (error \<times> sd) + sd" where
  "mousedown rt ev e s =
     (if dataset_draggable s = Some ''false'' then Inr s
      else if \<not> on_handle e then Inr s
      else if button e \<noteq> 0 then Inr s
      else
        (let r = boundingClientRect ev;
             s1 = s\<lparr>pos_3 := Num (clientX e), pos_4 := Num (clientY e), elementRect := Some r\<rparr>;
             translate =
               (case dataset_translate s of
                  None \<Rightarrow> JObj (Num 0) (Num 0)
                | Some a \<Rightarrow>
                    if a = [] then JObj (Num 0) (Num 0)
                    else (case json_parse rt a of
                            None \<Rightarrow> JObj (Num 0) (Num 0)
                          | Some j \<Rightarrow> j))
         in if translate = JNull then Inl (TypeError, s1)
            else
              (let tx = prop_x translate;
                   ty = prop_y translate;
                   d = container rt ev (position s1)
               in Inr (s1\<lparr>translateX := tx,
                          translateY := ty,
                          offsetLeft := nsub rt (Num (r_left r)) tx,
                          offsetTop := nsub rt (Num (r_top r)) ty,
                          dimensions := Some d,
                          thresholdX := nsub rt (Num (fst d)) (nadd rt (Num (r_width r)) (borderH s1)),
                          thresholdY := nsub rt (Num (snd d)) (nadd rt (Num (r_height r)) (borderV s1)),
                          on_mousemove := True,
                          on_mouseup := True\<rparr>))))"

text \<open>\<^verbatim>\<open>_drag(e)\<close>.\<close>

definition drag :: "runtime \<Rightarrow> mouse_event \<Rightarrow> sd \<Rightarrow> sd" where
  "drag rt e s =
     (let p1 = nsub rt (pos_3 s) (Num (clientX e));
          p2 = nsub rt (pos_4 s) (Num (clientY e));
          ty = nsub rt (translateY s) p2;
          tx = nsub rt (translateX s) p1;
          s1 = s\<lparr>pos_1 := p1, pos_2 := p2,
                 pos_3 := Num (clientX e), pos_4 := Num (clientY e),
                 translateY := ty, translateX := tx\<rparr>;
          threshold = getThresholds rt s1 (nadd rt ty (offsetTop s1)) (nadd rt tx (offsetLeft s1));
          ty' = nadd rt ty (snd threshold);
          tx' = nadd rt tx (fst threshold)
      in assign_translate rt tx' ty' (s1\<lparr>translateY := ty', translateX := tx'\<rparr>))"

text \<open>\<^verbatim>\<open>_stopDrag(e)\<close>.\<close>

definition stopDrag :: "runtime \<Rightarrow> mouse_event \<Rightarrow> sd \<Rightarrow> sd" where
  "stopDrag rt e s =
     (let s1 = s\<lparr>on_mousemove := False,
                 dataset_translate := Some (translate_attr rt (translateX s) (translateY s))\<rparr>
      in if store s1
         then s1\<lparr>storage := (storage s1)(id_s s1 \<mapsto> json_stringify rt (translateX s) (translateY s))\<rparr>
         else s1)"

text \<open>\<^verbatim>\<open>_getPos(data)\<close>: the corrected position \<open>(x, y)\<close> and the instance after the call.\<close>

definition getPos :: "runtime \<Rightarrow> env \<Rightarrow> json \<Rightarrow> sd \<Rightarrow> (num \<times> num) \<times> sd" where
  "getPos rt ev data s =
     (let pos = (if \<not> truthy data then (Num 0, Num 0) else (prop_x data, prop_y data));
          r = boundingClientRect ev;
          s1 = s\<lparr>elementRect := Some r,
                 offsetLeft := nsub rt (Num (r_left r)) (fst pos),
                 offsetTop := nsub rt (Num (r_top r)) (snd pos)\<rparr>;
          threshold =
            getThresholds rt s1 (nadd rt (snd pos) (offsetTop s1)) (nadd rt (fst pos) (offsetLeft s1))
      in ((nadd rt (fst pos) (fst threshold), nadd rt (snd pos) (snd threshold)), s1))"

text \<open>\<^verbatim>\<open>_updatePos(storedData)\<close>; \<open>None\<close> is \<^verbatim>\<open>null\<close>.\<close>

definition updatePos :: "runtime \<Rightarrow> env \<Rightarrow> string option \<Rightarrow> sd \<Rightarrow> sd" where
  "updatePos rt ev storedData s =
     (case storedData of
        None \<Rightarrow> s
      | Some a \<Rightarrow>
          if a = [] then s
          else
            (let data = (case json_parse rt a of None \<Rightarrow> JObj (Num 0) (Num 0) | Some j \<Rightarrow> j);
                 (pos, s1) = getPos rt ev data s;
                 s2 = s1\<lparr>dataset_translate := Some (translate_attr rt (fst pos) (snd pos))\<rparr>
             in if truthy data then assign_translate rt (fst pos) (snd pos) s2
                else s2\<lparr>style_translate := []\<rparr>))"

text \<open>\<^verbatim>\<open>_onStorage(e)\<close> and \<^verbatim>\<open>_restorePos()\<close>.\<close>

definition onStorage :: "runtime \<Rightarrow> env \<Rightarrow> storage_event \<Rightarrow> sd \<Rightarrow> sd" where
  "onStorage rt ev e s =
     (if dataset_draggable s = Some ''false'' then s
      else if key e = Some (id_s s) then updatePos rt ev (newValue e) s
      else s)"

definition restorePos :: "runtime \<Rightarrow> env \<Rightarrow> sd \<Rightarrow> sd" where
  "restorePos rt ev s = updatePos rt ev (storage s (id_s s)) s"

text \<open>\<^verbatim>\<open>removeListeners()\<close>, \<^verbatim>\<open>stop()\<close> and \<^verbatim>\<open>start()\<close>.\<close>

definition removeListeners :: "sd \<Rightarrow> sd" where
  "removeListeners s =
     s\<lparr>on_mousedown := False, on_storage := False, on_mousemove := False, on_mouseup := False\<rparr>"

definition stop :: "sd \<Rightarrow> sd" where
  "stop s =
     (if \<not> enabled s then s
      else (removeListeners s)\<lparr>dataset_translate := Some zero_attr, enabled := False\<rparr>)"

definition start :: "runtime \<Rightarrow> env \<Rightarrow> sd \<Rightarrow> (error \<times> sd) + sd" where
  "start rt ev s =
     (if enabled s then Inr s
      else
        (case setProperties rt ev s of
           Inl err \<Rightarrow> Inl err
         | Inr s1 \<Rightarrow>
             Inr ((restorePos rt ev s1)\<lparr>on_mousedown := True, on_storage := True, enabled := True\<rparr>)))"


subsection \<open>The constructor\<close>

text \<open>
  An argument passed for \<^verbatim>\<open>dragElement\<close> or \<^verbatim>\<open>element\<close>, by the checks the constructor
  makes on it: falsy; truthy but no \<^verbatim>\<open>HTMLElement\<close>; an \<^verbatim>\<open>HTMLElement\<close> whose
  \<^verbatim>\<open>nodeType\<close> is not \<^verbatim>\<open>ELEMENT_NODE\<close>; an element node.
\<close>

datatype arg = Falsy | NoHTMLElement | NoElementNode | ElementNode

text \<open>
  \<^verbatim>\<open>new SimpleDraggable(id, dragElement, element, store, enabled)\<close> on a page. The
  identifier is \<open>None\<close> when the argument is not a string. The four bound handlers are
  created here, so none of them is registered yet. A thrown error leaves the page as it is
  at that moment.
\<close>

definition new_instance :: "string \<Rightarrow> bool \<Rightarrow> bool \<Rightarrow> page \<Rightarrow> sd" where
  "new_instance i st en p =
     \<lparr>storage = storage p,
      dataset_translate = dataset_translate p,
      dataset_draggable = dataset_draggable p,
      style_translate = style_translate p,
      on_mousedown = False, on_storage = False, on_mousemove = False, on_mouseup = False,
      id_s = i, store = st, enabled = en,
      position = None, elementRect = None, dimensions = None,
      borderH = Undefined, borderV = Undefined,
      thresholdX = Undefined, thresholdY = Undefined,
      pos_1 = Undefined, pos_2 = Undefined, pos_3 = Undefined, pos_4 = Undefined,
      translateX = Undefined, translateY = Undefined,
      offsetLeft = Undefined, offsetTop = Undefined\<rparr>"

definition constructor ::
  "runtime \<Rightarrow> env \<Rightarrow> string option \<Rightarrow> arg \<Rightarrow> arg \<Rightarrow> bool \<Rightarrow> bool \<Rightarrow> page \<Rightarrow> (error \<times> page) + sd" where
  "constructor rt ev i dragElement element st en p =
     (if dragElement = Falsy then Inl (Error ''dragElement is required!'', p)
      else if element = Falsy then Inl (Error ''element is required!'', p)
      else if dragElement = NoHTMLElement
        then Inl (Error ''dragElement is not an HTMLElement Object!'', p)
      else if element = NoHTMLElement
        then Inl (Error ''element is not an HTMLElement Object!'', p)
      else if dragElement \<noteq> ElementNode
        then Inl (Error ''dragElement is not an element node!'', p)
      else if element \<noteq> ElementNode
        then Inl (Error ''element is not an element node!'', p)
      else
        (case i of
           None \<Rightarrow> Inl (Error ''ID is not a string or contains no text!'', p)
         | Some a \<Rightarrow>
             if a = [] then Inl (Error ''ID is not a string or contains no text!'', p)
             else
               (let s = new_instance a st en p
                in if enabled s
                   then (case setProperties rt ev s of
                           Inl (err, s1) \<Rightarrow> Inl (err, page.truncate s1)
                         | Inr s1 \<Rightarrow>
                             Inr ((restorePos rt ev s1)\<lparr>on_mousedown := True, on_storage := True\<rparr>))
                   else Inr (s\<lparr>on_storage := True\<rparr>))))"

subsection \<open>Events and calls in sequence\<close>

text \<open>
  What can happen to an instance: the host delivers an event (to the handler only while
  it is registered; the \<^verbatim>\<open>mouseup\<close> handler is registered with \<^verbatim>\<open>once\<close>, so the host
  removes it before the call), or the page calls a public method. A handler or method
  that throws leaves the state of that moment.
\<close>

datatype operation =
    MouseDown env mouse_event
  | MouseMove mouse_event
  | MouseUp mouse_event
  | StorageChange env storage_event
  | Start env
  | Stop
  | RemoveListeners

fun after :: "(error \<times> sd) + sd \<Rightarrow> sd" where
  "after (Inl (err, s)) = s"
| "after (Inr s) = s"

fun step :: "runtime \<Rightarrow> sd \<Rightarrow> operation \<Rightarrow> sd" where
  "step rt s (MouseDown ev e) = (if on_mousedown s then after (mousedown rt ev e s) else s)"
| "step rt s (MouseMove e) = (if on_mousemove s then drag rt e s else s)"
| "step rt s (MouseUp e) = (if on_mouseup s then stopDrag rt e (s\<lparr>on_mouseup := False\<rparr>) else s)"
| "step rt s (StorageChange ev e) = (if on_storage s then onStorage rt ev e s else s)"
| "step rt s (Start ev) = after (start rt ev s)"
| "step rt s Stop = stop s"
| "step rt s RemoveListeners = removeListeners s"

definition run :: "runtime \<Rightarrow> sd \<Rightarrow> operation list \<Rightarrow> sd" where
  "run rt s ops = foldl (step rt) s ops"


subsection \<open>The specification's Geometry Engine\<close>

text \<open>
  The two contracts of the specification, in its own words, to compare the code with;
  \<open>r\<close> is the rounding of the arithmetic they are carried out in.
  \<open>computeThresholdRange\<close>: maxX is the container width minus the element width plus the
  horizontal border sum, maxY analogous. \<open>clamp\<close>: per axis, the correction is
  \<open>max - c\<close> when \<open>max - c < 0\<close>, else \<open>abs c\<close> when \<open>c < 0\<close>, else 0. Sizes and ranges
  are pairs (horizontal, vertical).
\<close>

definition computeThresholdRange ::
  "(real \<Rightarrow> real) \<Rightarrow> real \<times> real \<Rightarrow> real \<times> real \<Rightarrow> real \<times> real \<Rightarrow> real \<times> real" where
  "computeThresholdRange r containerSize elementSize borders =
     (r (fst containerSize - r (fst elementSize + fst borders)),
      r (snd containerSize - r (snd elementSize + snd borders)))"

definition clamp_axis :: "(real \<Rightarrow> real) \<Rightarrow> real \<Rightarrow> real \<Rightarrow> real" where
  "clamp_axis r mx c = (if r (mx - c) < 0 then r (mx - c) else if c < 0 then \<bar>c\<bar> else 0)"

definition clamp :: "(real \<Rightarrow> real) \<Rightarrow> real \<Rightarrow> real \<Rightarrow> real \<times> real \<Rightarrow> real \<times> real" where
  "clamp r proposedTop proposedLeft rng =
     (clamp_axis r (fst rng) proposedLeft, clamp_axis r (snd rng) proposedTop)"

subsection \<open>Whole pixels\<close>

text \<open>
  A whole number of magnitude at most \<open>b\<close>; a whole number of pixels, of magnitude at
  most \<open>2 ^ 40\<close>; and the one property of the rounding the proofs rely on: a whole number
  up to \<open>2 ^ 53\<close> is a double, so an addition or subtraction with such a result is exact.
\<close>

definition whole :: "real \<Rightarrow> real \<Rightarrow> bool" where
  "whole b v = (v \<in> \<int> \<and> \<bar>v\<bar> \<le> b)"

definition pxmax :: real where
  "pxmax = 2 ^ 40"

definition px :: "real \<Rightarrow> bool" where
  "px v = whole pxmax v"

definition exact_on_integers :: "runtime \<Rightarrow> bool" where
  "exact_on_integers rt = (\<forall>v. whole (2 ^ 53) v \<longrightarrow> fl rt v = v)"

subsection \<open>Properties of a state\<close>

text \<open>
  The maxima derived from the element size and the container size that the host reports,
  with the border sums of the instance, by the formula of \<^verbatim>\<open>_mousedown\<close>.
\<close>

definition measured_thresholds :: "runtime \<Rightarrow> env \<Rightarrow> sd \<Rightarrow> num \<times> num" where
  "measured_thresholds rt ev s =
     (let r = boundingClientRect ev; d = container rt ev (position s)
      in (nsub rt (Num (fst d)) (nadd rt (Num (r_width r)) (borderH s)),
          nsub rt (Num (snd d)) (nadd rt (Num (r_height r)) (borderV s))))"

text \<open>The rendered translation lies in \<open>[0, maxX] \<times> [0, maxY]\<close> for the maxima \<open>m\<close>.\<close>

definition translation_within :: "sd \<Rightarrow> num \<times> num \<Rightarrow> bool" where
  "translation_within s m =
     (case (translateX s, translateY s, fst m, snd m) of
        (Num tx, Num ty, Num mx, Num my) \<Rightarrow> 0 \<le> tx \<and> tx \<le> mx \<and> 0 \<le> ty \<and> ty \<le> my
      | _ \<Rightarrow> False)"

text \<open>
  A coordinate against a maximum: inside \<open>[0, max]\<close> when that range is not empty; with a
  negative maximum, on the maximum or on 0.
\<close>

definition axis_ok :: "real \<Rightarrow> real \<Rightarrow> bool" where
  "axis_ok mx c = (if 0 \<le> mx then 0 \<le> c \<and> c \<le> mx else c = mx \<or> c = 0)"

text \<open>
  The same for the top-left position of the element, which is the pixel offset taken at
  the press plus the translation: against the maxima \<open>m\<close>, and against the thresholds
  the instance holds.
\<close>

definition position_within :: "sd \<Rightarrow> num \<times> num \<Rightarrow> bool" where
  "position_within s m =
     ((case (offsetLeft s, translateX s, fst m) of
         (Num ol, Num tx, Num mx) \<Rightarrow> axis_ok mx (ol + tx)
       | _ \<Rightarrow> False) \<and>
      (case (offsetTop s, translateY s, snd m) of
         (Num ot, Num ty, Num my) \<Rightarrow> axis_ok my (ot + ty)
       | _ \<Rightarrow> False))"

definition position_in_range :: "sd \<Rightarrow> bool" where
  "position_in_range s = position_within s (thresholdX s, thresholdY s)"

text \<open>A stored offset lies in \<open>[0, maxX] \<times> [0, maxY]\<close>.\<close>

definition offset_in_range :: "sd \<Rightarrow> real \<times> real \<Rightarrow> bool" where
  "offset_in_range s off =
     (case (thresholdX s, thresholdY s) of
        (Num mx, Num my) \<Rightarrow> 0 \<le> fst off \<and> fst off \<le> mx \<and> 0 \<le> snd off \<and> snd off \<le> my
      | _ \<Rightarrow> False)"


text \<open>The clamp leaves a proposed left coordinate on the origin edge.\<close>

definition pinned_to_origin :: "runtime \<Rightarrow> sd \<Rightarrow> num \<Rightarrow> bool" where
  "pinned_to_origin rt s left = (nadd rt left (fst (getThresholds rt s (Num 0) left)) = Num 0)"

text \<open>
  The state of a drag session in whole pixels: the thresholds, the pixel offsets, the
  translation and the last pointer position are whole numbers within the bounds that
  whole-pixel measurements give them, and the move handler is registered.
\<close>

definition session_state :: "real \<Rightarrow> real \<Rightarrow> real \<Rightarrow> real \<Rightarrow> sd \<Rightarrow> bool" where
  "session_state mx my ol ot s =
     (thresholdX s = Num mx \<and> thresholdY s = Num my \<and>
      offsetLeft s = Num ol \<and> offsetTop s = Num ot \<and>
      whole (3 * pxmax) mx \<and> whole (3 * pxmax) my \<and>
      whole (2 * pxmax) ol \<and> whole (2 * pxmax) ot \<and>
      (\<exists>tx ty p3 p4.
         translateX s = Num tx \<and> translateY s = Num ty \<and> pos_3 s = Num p3 \<and> pos_4 s = Num p4 \<and>
         whole (5 * pxmax) tx \<and> whole (5 * pxmax) ty \<and> px p3 \<and> px p4) \<and>
      on_mousemove s)"

subsection \<open>A concrete page\<close>

text \<open>
  A runtime that agrees with JavaScript on the numbers and strings of the examples below:
  their numbers are whole, so no operation rounds; every other string counts as
  unparsable and every other number prints as \<open>?\<close>.
\<close>

definition rt_ex :: runtime where
  \<open>rt_ex =
     \<lparr>json_parse = (\<lambda>a.
         if a = ''{"x":0,"y":0}'' \<or> a = ''{"x":0, "y":0}'' then Some (JObj (Num 0) (Num 0))
         else if a = ''{"x":5,"y":7}'' then Some (JObj (Num 5) (Num 7))
         else if a = ''{"x":20,"y":0}'' then Some (JObj (Num 20) (Num 0))
         else if a = ''{"x":5}'' then Some (JObj (Num 5) Undefined)
         else if a = ''null'' then Some JNull
         else None),
      num_str = (\<lambda>v. case v of
         Num r \<Rightarrow> (if r = 0 then ''0'' else if r = 5 then ''5'' else if r = 7 then ''7''
                    else if r = 10 then ''10'' else if r = 20 then ''20''
                    else if r = 30 then ''30'' else if r = 550 then ''550''
                    else if r = 4850 then ''4850''
                    else if r = - 50 then ''-50'' else if r = - 100 then ''-100'' else ''?'')
       | NaN \<Rightarrow> ''NaN''
       | Undefined \<Rightarrow> ''undefined''),
      json_stringify = (\<lambda>x y.
         if x = Num (- 50) \<and> y = Num 0 then ''{"x":-50,"y":0}''
         else if x = Num 0 \<and> y = Num 0 then ''{"x":0,"y":0}''
         else ''?''),
      fl = (\<lambda>v. v)\<rparr>\<close>

text \<open>
  A fixed element of 100 by 50 pixels without borders at (100, 100) in a viewport of
  800 by 600; a page with an empty store where the element has no annotation yet.
\<close>

definition box_ex :: box where
  "box_ex = \<lparr>scrollHeight = 600, offsetHeight = 600, clientHeight = 600,
             scrollWidth = 800, offsetWidth = 800, clientWidth = 800\<rparr>"

definition env_ex :: env where
  "env_ex =
     \<lparr>css_position = ''fixed'',
      borderLeft = Num 0, borderRight = Num 0, borderTop = Num 0, borderBottom = Num 0,
      boundingClientRect = \<lparr>r_left = 100, r_top = 100, r_width = 100, r_height = 50\<rparr>,
      visualViewport = Some (800, 600),
      innerWidth = 800, innerHeight = 600,
      body = box_ex, documentElement = box_ex,
      scrollX = 0, scrollY = 0\<rparr>"

definition page_ex :: page where
  "page_ex =
     \<lparr>storage = Map.empty, dataset_translate = None, dataset_draggable = None,
      style_translate = [],
      on_mousedown = False, on_storage = False, on_mousemove = False, on_mouseup = False\<rparr>"

text \<open>A primary-button press on the handle, and a pointer position.\<close>

definition press :: "real \<Rightarrow> real \<Rightarrow> mouse_event" where
  "press cx cy = \<lparr>on_handle = True, button = 0, clientX = cx, clientY = cy\<rparr>"

text \<open>
  The instance \<^verbatim>\<open>new SimpleDraggable("box", handle, element, st, en)\<close> as the host
  \<open>ev\<close> and the page \<open>p\<close> give it, and the one on the example page.
\<close>

definition inst_on :: "env \<Rightarrow> page \<Rightarrow> bool \<Rightarrow> bool \<Rightarrow> sd" where
  "inst_on ev p st en =
     (case constructor rt_ex ev (Some ''box'') ElementNode ElementNode st en p of
        Inr s \<Rightarrow> s
      | Inl (err, p') \<Rightarrow> new_instance [] st en p')"

definition inst_ex :: "bool \<Rightarrow> bool \<Rightarrow> sd" where
  "inst_ex st en = inst_on env_ex page_ex st en"

text \<open>The same instance, with persistence, after a press on the handle at (150, 120).\<close>

definition pressed_ex :: sd where
  "pressed_ex = after (mousedown rt_ex env_ex (press 150 120) (inst_ex True True))"

text \<open>
  The same element where the host reports no left border width (\<^verbatim>\<open>parseFloat\<close> of an
  empty shorthand), and the same page after the viewport has shrunk to 600 by 600.
\<close>

definition env_nan :: env where
  "env_nan = env_ex\<lparr>borderLeft := NaN\<rparr>"

definition env_narrow :: env where
  "env_narrow = env_ex\<lparr>visualViewport := Some (600, 600)\<rparr>"

text \<open>
  The same element resting on the origin, 100 by 50 pixels, in a viewport of 50 by 30 and
  in one of 50 by 600: an instance set up there has negative thresholds, on both axes and
  on the horizontal axis only.
\<close>

definition env_small :: env where
  "env_small =
     env_ex\<lparr>boundingClientRect := \<lparr>r_left = 0, r_top = 0, r_width = 100, r_height = 50\<rparr>,
            visualViewport := Some (50, 30)\<rparr>"

definition env_slim :: env where
  "env_slim = env_small\<lparr>visualViewport := Some (50, 600)\<rparr>"

definition small_ex :: sd where
  "small_ex = after (setProperties rt_ex env_small (new_instance ''box'' False True page_ex))"

definition slim_ex :: sd where
  "slim_ex = after (setProperties rt_ex env_slim (new_instance ''box'' False True page_ex))"

text \<open>
  The same element measured 10 pixels left of the viewport, and the example page with the
  offset (20, 0), with an object that has no \<^verbatim>\<open>y\<close>, and with text that is no JSON
  stored under the identifier.
\<close>

definition env_left :: env where
  "env_left =
     env_ex\<lparr>boundingClientRect := \<lparr>r_left = - 10, r_top = 100, r_width = 100, r_height = 50\<rparr>\<rparr>"

definition page_20 :: page where
  \<open>page_20 = page_ex\<lparr>storage := [''box'' \<mapsto> ''{"x":20,"y":0}'']\<rparr>\<close>



text \<open>
  The example page with a value stored under the identifier, and an instance without
  persistence that is not enabled yet, as the constructor leaves it there.
\<close>

definition page_stored :: page where
  \<open>page_stored = page_ex\<lparr>storage := [''box'' \<mapsto> ''{"x":5,"y":7}'']\<rparr>\<close>

definition idle_ex :: sd where
  "idle_ex = (new_instance ''box'' False False page_stored)\<lparr>on_storage := True\<rparr>"

section \<open>Facts shared by the proofs\<close>

lemmas ex_defs = inst_ex_def inst_on_def constructor_def new_instance_def setProperties_def
  restorePos_def updatePos_def env_ex_def page_ex_def rt_ex_def container_def getViewport_def
  Let_def press_def zero_attr_def

text \<open>The constructor accepts the example arguments, so \<open>inst_ex\<close> is the instance it returns.\<close>

lemma inst_ex_constructed:
  "constructor rt_ex env_ex (Some ''box'') ElementNode ElementNode st en page_ex = Inr (inst_ex st en)"
  by (simp add: ex_defs)

text \<open>On numbers, \<^verbatim>\<open>_getThresholds\<close> is the clamp of the specification on each axis.\<close>

lemma getThresholds_Num:
  "thresholdX s = Num mx \<Longrightarrow> thresholdY s = Num my \<Longrightarrow>
   getThresholds rt s (Num t) (Num l) =
     (Num (clamp_axis (fl rt) mx l), Num (clamp_axis (fl rt) my t))"
  by (simp add: getThresholds_def clamp_axis_def Let_def)

lemma inst_ex_fields:
  "thresholdX (inst_ex True True) = Num 700" "thresholdY (inst_ex True True) = Num 550"
  "translateX (inst_ex True True) = Num 0" "translateY (inst_ex True True) = Num 0"
  "offsetLeft (inst_ex True True) = Num 100" "offsetTop (inst_ex True True) = Num 100"
  "pos_3 (inst_ex True True) = Num 0" "pos_4 (inst_ex True True) = Num 0"
  by (simp_all add: ex_defs)

lemma setProperties_ex:
  "setProperties rt_ex env_ex (new_instance ''box'' True True page_ex) =
     Inr ((inst_ex True True)\<lparr>on_mousedown := False, on_storage := False\<rparr>)"
  by (simp add: ex_defs)

text \<open>Whole numbers are closed under the operations of the class, with the bounds adding up.\<close>

lemma whole_add: "whole a x \<Longrightarrow> whole b y \<Longrightarrow> whole (a + b) (x + y)"
  by (auto simp add: whole_def)

lemma whole_diff: "whole a x \<Longrightarrow> whole b y \<Longrightarrow> whole (a + b) (x - y)"
  by (auto simp add: whole_def)

lemma whole_abs: "whole a x \<Longrightarrow> whole a \<bar>x\<bar>"
  by (auto simp add: whole_def)

lemma whole_mono: "whole a x \<Longrightarrow> a \<le> b \<Longrightarrow> whole b x"
  by (auto simp add: whole_def)


lemma pxmax_bounds: "0 < pxmax" "20 * pxmax \<le> 2 ^ 53"
  by (simp_all add: pxmax_def)

text \<open>On whole numbers whose bounds add up to at most \<open>2 ^ 53\<close> the operators are exact.\<close>

lemma nadd_exact:
  "exact_on_integers rt \<Longrightarrow> whole a x \<Longrightarrow> whole b y \<Longrightarrow> a + b \<le> 2 ^ 53 \<Longrightarrow>
   nadd rt (Num x) (Num y) = Num (x + y)"
  using whole_add [of a x b y] whole_mono [of "a + b" "x + y" "2 ^ 53"]
  by (simp add: exact_on_integers_def)

lemma nsub_exact:
  "exact_on_integers rt \<Longrightarrow> whole a x \<Longrightarrow> whole b y \<Longrightarrow> a + b \<le> 2 ^ 53 \<Longrightarrow>
   nsub rt (Num x) (Num y) = Num (x - y)"
  using whole_diff [of a x b y] whole_mono [of "a + b" "x - y" "2 ^ 53"]
  by (simp add: exact_on_integers_def)

lemma fl_exact: "exact_on_integers rt \<Longrightarrow> whole a x \<Longrightarrow> a \<le> 2 ^ 53 \<Longrightarrow> fl rt x = x"
  using whole_mono [of a x "2 ^ 53"] by (simp add: exact_on_integers_def)

lemma rt_ex_exact: "exact_on_integers rt_ex"
  by (simp add: exact_on_integers_def rt_ex_def)

section \<open>The Geometry Engine\<close>

text \<open>
  C2: the thresholds that \<^verbatim>\<open>_setProperties\<close> stores are the specification's
  \<open>computeThresholdRange\<close> of the container size, the element size and the border sums
  (maxX = container width - (element width + horizontal borders), maxY likewise);
  \<^verbatim>\<open>_getThresholds\<close> returns, per axis and independently, the specification's \<open>clamp\<close>
  (\<open>max - c\<close> when \<open>max - c < 0\<close>, else \<open>abs c\<close> when \<open>c < 0\<close>, else 0); and the caller
  \<^verbatim>\<open>_drag\<close> adds that correction to its running translation instead of replacing it.
  This holds in the arithmetic of the runtime, whatever its rounding.
\<close>

theorem geometry_engine_as_specified:
  assumes brd: "borderLeft ev = Num bl" "borderRight ev = Num br"
      "borderTop ev = Num bt" "borderBottom ev = Num bb"
    and stp: "setProperties rt ev s = Inr s'"
    and rng: "thresholdX t = Num mx" "thresholdY t = Num my"
    and ses: "translateX t = Num tx" "translateY t = Num ty"
      "offsetLeft t = Num ol" "offsetTop t = Num ot" "pos_3 t = Num p3" "pos_4 t = Num p4"
  shows "(thresholdX s', thresholdY s') =
           (let m = computeThresholdRange (fl rt) (container rt ev (Some (css_position ev)))
                      (r_width (boundingClientRect ev), r_height (boundingClientRect ev))
                      (fl rt (bl + br), fl rt (bt + bb))
            in (Num (fst m), Num (snd m)))
       \<and> getThresholds rt t (Num top') (Num left) =
           (let c = clamp (fl rt) top' left (mx, my) in (Num (fst c), Num (snd c)))
       \<and> (translateX (drag rt e t), translateY (drag rt e t)) =
           (let x = fl rt (tx - fl rt (p3 - clientX e)); y = fl rt (ty - fl rt (p4 - clientY e));
                c = clamp (fl rt) (fl rt (y + ot)) (fl rt (x + ol)) (mx, my)
            in (Num (fl rt (x + fst c)), Num (fl rt (y + snd c))))"
proof -
  have a: "(thresholdX s', thresholdY s') =
           (let m = computeThresholdRange (fl rt) (container rt ev (Some (css_position ev)))
                      (r_width (boundingClientRect ev), r_height (boundingClientRect ev))
                      (fl rt (bl + br), fl rt (bt + bb))
            in (Num (fst m), Num (snd m)))"
    using stp brd
    by (auto simp add: setProperties_def Let_def computeThresholdRange_def split: if_splits)
  have b: "getThresholds rt t (Num top') (Num left) =
           (let c = clamp (fl rt) top' left (mx, my) in (Num (fst c), Num (snd c)))"
    using rng by (simp add: getThresholds_Num clamp_def Let_def)
  have c: "(translateX (drag rt e t), translateY (drag rt e t)) =
           (let x = fl rt (tx - fl rt (p3 - clientX e)); y = fl rt (ty - fl rt (p4 - clientY e));
                c = clamp (fl rt) (fl rt (y + ot)) (fl rt (x + ol)) (mx, my)
            in (Num (fl rt (x + fst c)), Num (fl rt (y + snd c))))"
    using rng ses
    by (simp add: drag_def Let_def assign_translate_def getThresholds_Num clamp_def)
  from a b c show ?thesis by blast
qed

theorem geometry_engine_as_specified_witness:
  "setProperties rt_ex env_ex (new_instance ''box'' True True page_ex) =
     Inr ((inst_ex True True)\<lparr>on_mousedown := False, on_storage := False\<rparr>)
   \<and> (thresholdX (inst_ex True True), thresholdY (inst_ex True True)) = (Num 700, Num 550)
   \<and> getThresholds rt_ex (inst_ex True True) (Num 30) (Num 750) = (Num (- 50), Num 0)
   \<and> (translateX (drag rt_ex (press 650 30) (inst_ex True True)),
       translateY (drag rt_ex (press 650 30) (inst_ex True True))) = (Num 600, Num 30)"
  using geometry_engine_as_specified [where ev = env_ex and bl = 0 and br = 0 and bt = 0 and bb = 0
      and s = "new_instance ''box'' True True page_ex"
      and s' = "(inst_ex True True)\<lparr>on_mousedown := False, on_storage := False\<rparr>"
      and t = "inst_ex True True" and mx = 700 and my = 550 and tx = 0 and ty = 0
      and ol = 100 and ot = 100 and ?p3.0 = 0 and ?p4.0 = 0 and top' = 30 and left = 750
      and rt = rt_ex and e = "press 650 30"]
    setProperties_ex inst_ex_fields
  by (simp add: env_ex_def container_def getViewport_def computeThresholdRange_def clamp_def
      clamp_axis_def Let_def press_def rt_ex_def)

section \<open>Enabling and disabling\<close>

text \<open>
  C10: \<^verbatim>\<open>stop()\<close> on an instance that is already disabled and \<^verbatim>\<open>start()\<close> on one that
  is already enabled return at once and change nothing: the whole state (annotation,
  listeners, geometry, store) is the one before the call.
\<close>

theorem redundant_stop_start_change_nothing:
  "(\<not> enabled s \<longrightarrow> stop s = s) \<and> (enabled s \<longrightarrow> start rt ev s = Inr s)"
  by (simp add: stop_def start_def)

theorem redundant_stop_start_change_nothing_witness:
  "\<not> enabled (inst_ex True False) \<and> stop (inst_ex True False) = inst_ex True False
   \<and> enabled (inst_ex True True) \<and> start rt_ex env_ex (inst_ex True True) = Inr (inst_ex True True)"
  using redundant_stop_start_change_nothing [of "inst_ex True False" rt_ex env_ex]
    redundant_stop_start_change_nothing [of "inst_ex True True" rt_ex env_ex]
  by (simp add: ex_defs)

section \<open>The drag session\<close>

text \<open>The exact clamp: a whole coordinate is corrected by a whole amount, into the range.\<close>

lemma clamp_axis_whole:
  "whole a mx \<Longrightarrow> whole b c \<Longrightarrow> whole (a + b) (clamp_axis (\<lambda>v. v) mx c)"
  using whole_diff [of a mx b c] whole_abs [of b c]
  by (auto simp add: clamp_axis_def whole_def)

lemma clamp_axis_ok: "axis_ok mx (ol + (t + clamp_axis (\<lambda>v. v) mx (t + ol)))"
  by (simp add: axis_ok_def clamp_axis_def)

lemma axis_ok_bound: "axis_ok mx c \<Longrightarrow> \<bar>c\<bar> \<le> \<bar>mx\<bar>"
  by (auto simp add: axis_ok_def split: if_splits)

text \<open>
  One axis of one move, in whole pixels: every operation of \<^verbatim>\<open>_drag\<close> is exact, the new
  translation is whole and within its bound, and the position it gives is in range.
\<close>

lemma abs_split_bound: "\<bar>a + b\<bar> \<le> m \<Longrightarrow> \<bar>a\<bar> \<le> c \<Longrightarrow> \<bar>b\<bar> \<le> m + c" for a b m c :: real
  by linarith

lemma axis_move:
  assumes ex: "exact_on_integers rt"
    and mx: "whole (3 * pxmax) mx" and ol: "whole (2 * pxmax) ol"
    and tx: "whole (5 * pxmax) tx" and p3: "px p3" and cx: "px cx"
  shows "fl rt (p3 - cx) = p3 - cx"
    and "fl rt (tx - (p3 - cx)) = tx - (p3 - cx)"
    and "fl rt (tx - (p3 - cx) + ol) = tx - (p3 - cx) + ol"
    and "clamp_axis (fl rt) mx (tx - (p3 - cx) + ol) =
           clamp_axis (\<lambda>v. v) mx (tx - (p3 - cx) + ol)"
    and "fl rt (tx - (p3 - cx) + clamp_axis (\<lambda>v. v) mx (tx - (p3 - cx) + ol)) =
           tx - (p3 - cx) + clamp_axis (\<lambda>v. v) mx (tx - (p3 - cx) + ol)"
    and "whole (5 * pxmax) (tx - (p3 - cx) + clamp_axis (\<lambda>v. v) mx (tx - (p3 - cx) + ol))"
    and "axis_ok mx (ol + (tx - (p3 - cx) + clamp_axis (\<lambda>v. v) mx (tx - (p3 - cx) + ol)))"
proof -
  note b = pxmax_bounds
  have p3': "whole pxmax p3" and cx': "whole pxmax cx" using p3 cx by (simp_all add: px_def)
  have d: "whole (2 * pxmax) (p3 - cx)" using whole_diff [OF p3' cx'] by simp
  show "fl rt (p3 - cx) = p3 - cx"
    using fl_exact [OF ex d] b by simp
  have t: "whole (7 * pxmax) (tx - (p3 - cx))" using whole_diff [OF tx d] by simp
  show "fl rt (tx - (p3 - cx)) = tx - (p3 - cx)"
    using fl_exact [OF ex t] b by simp
  have l: "whole (9 * pxmax) (tx - (p3 - cx) + ol)" using whole_add [OF t ol] by simp
  show "fl rt (tx - (p3 - cx) + ol) = tx - (p3 - cx) + ol"
    using fl_exact [OF ex l] b by simp
  have "whole (12 * pxmax) (mx - (tx - (p3 - cx) + ol))" using whole_diff [OF mx l] by simp
  from fl_exact [OF ex this] b
  have e: "fl rt (mx - (tx - (p3 - cx) + ol)) = mx - (tx - (p3 - cx) + ol)" by simp
  show "clamp_axis (fl rt) mx (tx - (p3 - cx) + ol) =
           clamp_axis (\<lambda>v. v) mx (tx - (p3 - cx) + ol)"
    by (simp add: clamp_axis_def e)
  have c: "whole (12 * pxmax) (clamp_axis (\<lambda>v. v) mx (tx - (p3 - cx) + ol))"
    using clamp_axis_whole [OF mx l] by simp
  have n: "whole (19 * pxmax) (tx - (p3 - cx) + clamp_axis (\<lambda>v. v) mx (tx - (p3 - cx) + ol))"
    using whole_add [OF t c] by simp
  show "fl rt (tx - (p3 - cx) + clamp_axis (\<lambda>v. v) mx (tx - (p3 - cx) + ol)) =
           tx - (p3 - cx) + clamp_axis (\<lambda>v. v) mx (tx - (p3 - cx) + ol)"
    using fl_exact [OF ex n] b by simp
  show k: "axis_ok mx (ol + (tx - (p3 - cx) + clamp_axis (\<lambda>v. v) mx (tx - (p3 - cx) + ol)))"
    by (rule clamp_axis_ok)
  have "\<bar>ol + (tx - (p3 - cx) + clamp_axis (\<lambda>v. v) mx (tx - (p3 - cx) + ol))\<bar> \<le> 3 * pxmax"
    using axis_ok_bound [OF k] mx by (simp add: whole_def)
  from abs_split_bound [OF this, of "2 * pxmax"] ol
  have "\<bar>tx - (p3 - cx) + clamp_axis (\<lambda>v. v) mx (tx - (p3 - cx) + ol)\<bar> \<le> 5 * pxmax"
    by (simp add: whole_def)
  then show "whole (5 * pxmax) (tx - (p3 - cx) + clamp_axis (\<lambda>v. v) mx (tx - (p3 - cx) + ol))"
    using n by (simp add: whole_def)
qed

text \<open>One move keeps the session state, and the frame it renders is in range.\<close>

lemma drag_keeps_session:
  assumes ex: "exact_on_integers rt"
    and ss: "session_state mx my ol ot s"
    and ev: "px (clientX e)" "px (clientY e)"
  shows "session_state mx my ol ot (drag rt e s)
       \<and> position_in_range (drag rt e s)
       \<and> style_translate (drag rt e s) =
           translate_css rt (translateX (drag rt e s)) (translateY (drag rt e s))"
proof -
  from ss obtain tx ty p3 p4 where f:
    "thresholdX s = Num mx" "thresholdY s = Num my" "offsetLeft s = Num ol" "offsetTop s = Num ot"
    "translateX s = Num tx" "translateY s = Num ty" "pos_3 s = Num p3" "pos_4 s = Num p4"
    "on_mousemove s"
    and w: "whole (3 * pxmax) mx" "whole (3 * pxmax) my" "whole (2 * pxmax) ol"
    "whole (2 * pxmax) ot" "whole (5 * pxmax) tx" "whole (5 * pxmax) ty" "px p3" "px p4"
    by (auto simp add: session_state_def)
  note x = axis_move [OF ex w(1,3,5,7) ev(1)]
  note y = axis_move [OF ex w(2,4,6,8) ev(2)]
  let ?tx = "tx - (p3 - clientX e) + clamp_axis (\<lambda>v. v) mx (tx - (p3 - clientX e) + ol)"
  let ?ty = "ty - (p4 - clientY e) + clamp_axis (\<lambda>v. v) my (ty - (p4 - clientY e) + ot)"
  have d: "drag rt e s =
      s\<lparr>pos_1 := Num (p3 - clientX e), pos_2 := Num (p4 - clientY e),
        pos_3 := Num (clientX e), pos_4 := Num (clientY e),
        translateY := Num ?ty, translateX := Num ?tx,
        style_translate := translate_css rt (Num ?tx) (Num ?ty)\<rparr>"
    using f
    by (simp add: drag_def Let_def assign_translate_def getThresholds_Num x(1-5) y(1-5))
  have a: "session_state mx my ol ot (drag rt e s)"
    using f w ev x(6) y(6) unfolding d by (simp add: session_state_def)
  have b: "position_in_range (drag rt e s)"
    using f x(7) y(7) unfolding d by (simp add: position_in_range_def position_within_def)
  have c: "style_translate (drag rt e s) =
           translate_css rt (translateX (drag rt e s)) (translateY (drag rt e s))"
    unfolding d by simp
  from a b c show ?thesis by blast
qed

lemma run_Cons: "run rt s (x # xs) = run rt (step rt s x) xs"
  by (simp add: run_def)

lemma run_moves:
  "exact_on_integers rt \<Longrightarrow> session_state mx my ol ot s \<Longrightarrow> es \<noteq> [] \<Longrightarrow>
   \<forall>e\<in>set es. px (clientX e) \<and> px (clientY e) \<Longrightarrow>
   session_state mx my ol ot (run rt s (map MouseMove es))
   \<and> position_in_range (run rt s (map MouseMove es))
   \<and> style_translate (run rt s (map MouseMove es)) =
       translate_css rt (translateX (run rt s (map MouseMove es)))
         (translateY (run rt s (map MouseMove es)))"
proof (induction es arbitrary: s)
  case Nil
  then show ?case by simp
next
  case (Cons e es)
  have m: "on_mousemove s" using Cons.prems(2) by (simp add: session_state_def)
  have pe: "px (clientX e)" "px (clientY e)" using Cons.prems(4) by simp_all
  note k = drag_keeps_session [OF Cons.prems(1,2) pe]
  show ?case
  proof (cases "es = []")
    case True
    then show ?thesis using k m by (simp add: run_def)
  next
    case False
    have d: "session_state mx my ol ot (drag rt e s)" using k by blast
    have r: "\<forall>e\<in>set es. px (clientX e) \<and> px (clientY e)" using Cons.prems(4) by simp
    show ?thesis
      using Cons.IH [OF Cons.prems(1) d False r] m by (simp add: run_Cons)
  qed
qed

text \<open>
  An accepted press, with whole-pixel measurements, border sums and recorded offset, opens
  a session whose thresholds are the ones measured at the press.
\<close>

lemma mousedown_session:
  assumes ex: "exact_on_integers rt"
    and acc: "dataset_draggable s \<noteq> Some ''false''" "on_handle e0" "button e0 = 0"
      "mousedown rt ev e0 s = Inr s0"
    and brd: "borderH s = Num bh" "borderV s = Num bv" "px bh" "px bv"
    and off: "translateX s0 = Num tx0" "translateY s0 = Num ty0" "px tx0" "px ty0"
    and box: "px (r_left (boundingClientRect ev))" "px (r_top (boundingClientRect ev))"
      "px (r_width (boundingClientRect ev))" "px (r_height (boundingClientRect ev))"
      "px (fst (container rt ev (position s)))" "px (snd (container rt ev (position s)))"
    and ptr: "px (clientX e0)" "px (clientY e0)"
  shows "session_state
           (fst (container rt ev (position s)) - (r_width (boundingClientRect ev) + bh))
           (snd (container rt ev (position s)) - (r_height (boundingClientRect ev) + bv))
           (r_left (boundingClientRect ev) - tx0) (r_top (boundingClientRect ev) - ty0) s0
       \<and> (thresholdX s0, thresholdY s0) = measured_thresholds rt ev s"
proof -
  note b = pxmax_bounds
  let ?r = "boundingClientRect ev"
  let ?d = "container rt ev (position s)"
  have wb: "whole pxmax bh" "whole pxmax bv" "whole pxmax tx0" "whole pxmax ty0"
    "whole pxmax (r_left ?r)" "whole pxmax (r_top ?r)" "whole pxmax (r_width ?r)"
    "whole pxmax (r_height ?r)" "whole pxmax (fst ?d)" "whole pxmax (snd ?d)"
    using brd off box by (simp_all add: px_def)
  have w1: "nadd rt (Num (r_width ?r)) (Num bh) = Num (r_width ?r + bh)"
    using nadd_exact [OF ex wb(7) wb(1)] b by simp
  have h1: "nadd rt (Num (r_height ?r)) (Num bv) = Num (r_height ?r + bv)"
    using nadd_exact [OF ex wb(8) wb(2)] b by simp
  have w2: "whole (2 * pxmax) (r_width ?r + bh)" using whole_add [OF wb(7) wb(1)] by simp
  have h2: "whole (2 * pxmax) (r_height ?r + bv)" using whole_add [OF wb(8) wb(2)] by simp
  have mx: "nsub rt (Num (fst ?d)) (Num (r_width ?r + bh)) = Num (fst ?d - (r_width ?r + bh))"
    using nsub_exact [OF ex wb(9) w2] b by simp
  have my: "nsub rt (Num (snd ?d)) (Num (r_height ?r + bv)) = Num (snd ?d - (r_height ?r + bv))"
    using nsub_exact [OF ex wb(10) h2] b by simp
  have mxw: "whole (3 * pxmax) (fst ?d - (r_width ?r + bh))" using whole_diff [OF wb(9) w2] by simp
  have myw: "whole (3 * pxmax) (snd ?d - (r_height ?r + bv))" using whole_diff [OF wb(10) h2] by simp
  have ol: "nsub rt (Num (r_left ?r)) (Num tx0) = Num (r_left ?r - tx0)"
    using nsub_exact [OF ex wb(5) wb(3)] b by simp
  have ot: "nsub rt (Num (r_top ?r)) (Num ty0) = Num (r_top ?r - ty0)"
    using nsub_exact [OF ex wb(6) wb(4)] b by simp
  have olw: "whole (2 * pxmax) (r_left ?r - tx0)" using whole_diff [OF wb(5) wb(3)] by simp
  have otw: "whole (2 * pxmax) (r_top ?r - ty0)" using whole_diff [OF wb(6) wb(4)] by simp
  have tw: "whole (5 * pxmax) tx0" "whole (5 * pxmax) ty0"
    using wb(3,4) b by (auto intro: whole_mono)
  have s0: "thresholdX s0 = nsub rt (Num (fst ?d)) (nadd rt (Num (r_width ?r)) (borderH s))"
    "thresholdY s0 = nsub rt (Num (snd ?d)) (nadd rt (Num (r_height ?r)) (borderV s))"
    "offsetLeft s0 = nsub rt (Num (r_left ?r)) (translateX s0)"
    "offsetTop s0 = nsub rt (Num (r_top ?r)) (translateY s0)"
    "pos_3 s0 = Num (clientX e0)" "pos_4 s0 = Num (clientY e0)" "on_mousemove s0"
    using acc by (auto simp add: mousedown_def Let_def split: if_splits)
  have a: "session_state
           (fst ?d - (r_width ?r + bh)) (snd ?d - (r_height ?r + bv))
           (r_left ?r - tx0) (r_top ?r - ty0) s0"
    using s0 brd off ptr w1 h1 mx my ol ot mxw myw olw otw tw
    by (simp add: session_state_def)
  have c: "(thresholdX s0, thresholdY s0) = measured_thresholds rt ev s"
    using s0 by (simp add: measured_thresholds_def Let_def)
  from a c show ?thesis by blast
qed

lemma pressed_ex_eq:
  "mousedown rt_ex env_ex (press 150 120) (inst_ex True True) = Inr pressed_ex"
  by (simp add: pressed_ex_def mousedown_def ex_defs)

lemma px_numeral: "px 0" "px 50" "px 100" "px 120" "px 150" "px 600" "px 800"
  by (simp_all add: px_def whole_def pxmax_def)

text \<open>
  C1, as amended: during a drag session, opened by an accepted press, in which the border
  sums, the recorded offset, the element box and the container size measured at the
  press, and all pointer coordinates are whole numbers of pixels, after every non-empty
  sequence of pointer-move events, so in every rendered frame, the top-left position of
  the element (the pixel offset taken at the press plus the rendered translation) lies
  within \<open>[0, maxX] \<times> [0, maxY]\<close>; with a negative maximum the coordinate is that maximum
  or 0. The maxima are the ones derived at the press, from the element size and container
  size measured then and the border sums of the setup, and the style rendered is the
  clamped translation.
\<close>

theorem drag_session_position_in_range:
  assumes ex: "exact_on_integers rt"
    and acc: "dataset_draggable s \<noteq> Some ''false''" "on_handle e0" "button e0 = 0"
      "mousedown rt ev e0 s = Inr s0"
    and brd: "borderH s = Num bh" "borderV s = Num bv" "px bh" "px bv"
    and off: "translateX s0 = Num tx0" "translateY s0 = Num ty0" "px tx0" "px ty0"
    and box: "px (r_left (boundingClientRect ev))" "px (r_top (boundingClientRect ev))"
      "px (r_width (boundingClientRect ev))" "px (r_height (boundingClientRect ev))"
      "px (fst (container rt ev (position s)))" "px (snd (container rt ev (position s)))"
    and ptr: "px (clientX e0)" "px (clientY e0)" "\<forall>e\<in>set es. px (clientX e) \<and> px (clientY e)"
    and ne: "es \<noteq> []"
  shows "let s' = run rt s0 (map MouseMove es) in
           position_within s' (measured_thresholds rt ev s)
         \<and> (thresholdX s', thresholdY s') = measured_thresholds rt ev s
         \<and> style_translate s' = translate_css rt (translateX s') (translateY s')"
proof -
  from mousedown_session [OF ex acc brd off box ptr(1,2)]
  have ss: "session_state
           (fst (container rt ev (position s)) - (r_width (boundingClientRect ev) + bh))
           (snd (container rt ev (position s)) - (r_height (boundingClientRect ev) + bv))
           (r_left (boundingClientRect ev) - tx0) (r_top (boundingClientRect ev) - ty0) s0"
    and m: "(thresholdX s0, thresholdY s0) = measured_thresholds rt ev s"
    by blast+
  let ?s = "run rt s0 (map MouseMove es)"
  from run_moves [OF ex ss ne ptr(3)]
  have r: "session_state
           (fst (container rt ev (position s)) - (r_width (boundingClientRect ev) + bh))
           (snd (container rt ev (position s)) - (r_height (boundingClientRect ev) + bv))
           (r_left (boundingClientRect ev) - tx0) (r_top (boundingClientRect ev) - ty0) ?s"
    and p: "position_in_range ?s"
    and c: "style_translate ?s = translate_css rt (translateX ?s) (translateY ?s)"
    by blast+
  have t: "(thresholdX ?s, thresholdY ?s) = measured_thresholds rt ev s"
    using r ss m by (simp add: session_state_def)
  from p t have "position_within ?s (measured_thresholds rt ev s)"
    by (simp add: position_in_range_def)
  with t c show ?thesis by (simp add: Let_def)
qed

theorem drag_session_position_in_range_witness:
  "dataset_draggable (inst_ex True True) \<noteq> Some ''false''
   \<and> on_handle (press 150 120) \<and> button (press 150 120) = 0
   \<and> mousedown rt_ex env_ex (press 150 120) (inst_ex True True) = Inr pressed_ex
   \<and> borderH (inst_ex True True) = Num 0 \<and> borderV (inst_ex True True) = Num 0
   \<and> translateX pressed_ex = Num 0 \<and> translateY pressed_ex = Num 0
   \<and> px (clientX (press 100 120)) \<and> px (clientY (press 100 120))
   \<and> px (clientX (press 0 120)) \<and> px (clientY (press 0 120))
   \<and> measured_thresholds rt_ex env_ex (inst_ex True True) = (Num 700, Num 550)
   \<and> position_within (run rt_ex pressed_ex (map MouseMove [press 100 120, press 0 120]))
        (Num 700, Num 550)
   \<and> (thresholdX (run rt_ex pressed_ex (map MouseMove [press 100 120, press 0 120])),
       thresholdY (run rt_ex pressed_ex (map MouseMove [press 100 120, press 0 120]))) =
      (Num 700, Num 550)
   \<and> translateX (run rt_ex pressed_ex (map MouseMove [press 100 120, press 0 120])) = Num (- 100)
   \<and> style_translate (run rt_ex pressed_ex (map MouseMove [press 100 120, press 0 120])) = ''-100px 0px''"
proof -
  have a: "dataset_draggable (inst_ex True True) \<noteq> Some ''false''"
    "on_handle (press 150 120)" "button (press 150 120) = 0"
    by (simp_all add: ex_defs)
  have b: "borderH (inst_ex True True) = Num 0" "borderV (inst_ex True True) = Num 0"
    "px 0" "px 0"
    by (simp_all add: px_numeral ex_defs)
  have c: "translateX pressed_ex = Num 0" "translateY pressed_ex = Num 0" "px 0" "px 0"
    by (simp_all add: px_numeral pressed_ex_def mousedown_def ex_defs)
  have d: "px (r_left (boundingClientRect env_ex))" "px (r_top (boundingClientRect env_ex))"
    "px (r_width (boundingClientRect env_ex))" "px (r_height (boundingClientRect env_ex))"
    "px (fst (container rt_ex env_ex (position (inst_ex True True))))"
    "px (snd (container rt_ex env_ex (position (inst_ex True True))))"
    by (simp_all add: px_numeral ex_defs)
  have e: "px (clientX (press 150 120))" "px (clientY (press 150 120))"
    "\<forall>e\<in>set [press 100 120, press 0 120]. px (clientX e) \<and> px (clientY e)"
    by (simp_all add: px_numeral press_def)
  have n: "[press 100 120, press 0 120] \<noteq> []" by simp
  have m: "measured_thresholds rt_ex env_ex (inst_ex True True) = (Num 700, Num 550)"
    by (simp add: measured_thresholds_def ex_defs)
  have t: "translateX (run rt_ex pressed_ex (map MouseMove [press 100 120, press 0 120])) = Num (- 100)"
    "translateY (run rt_ex pressed_ex (map MouseMove [press 100 120, press 0 120])) = Num 0"
    by (simp_all add: run_def pressed_ex_def mousedown_def drag_def getThresholds_def
        assign_translate_def translate_css_def ex_defs)
  from drag_session_position_in_range [OF rt_ex_exact a pressed_ex_eq b c d e n]
  show ?thesis
    using a b c e m t pressed_ex_eq
    by (simp add: Let_def translate_css_def rt_ex_def)
qed


text \<open>
  The translation itself need not lie in the range, numeric border sums are needed, and
  the maxima are those of the press. An element that rests at (100, 100) and is dragged
  50 pixels to the left is rendered with the translation \<open>-50px 0px\<close>. Where the host
  reports no left border width the thresholds are \<open>NaN\<close>, and the same element is
  dragged to \<open>4850px 0px\<close> in the viewport of 800 pixels. And when the viewport shrinks to
  600 pixels after the press, a move renders \<open>550px 0px\<close>, with the element at 650, while
  the sizes of that moment give the maximum 500.
\<close>

theorem rendered_translation_outside_range:
  "style_translate (run rt_ex (inst_ex True True)
      [MouseDown env_ex (press 150 120), MouseMove (press 100 120)]) = ''-50px 0px''
   \<and> \<not> translation_within
        (run rt_ex (inst_ex True True) [MouseDown env_ex (press 150 120), MouseMove (press 100 120)])
        (measured_thresholds rt_ex env_ex
          (run rt_ex (inst_ex True True) [MouseDown env_ex (press 150 120), MouseMove (press 100 120)]))
   \<and> style_translate (run rt_ex (inst_on env_nan page_ex True True)
      [MouseDown env_nan (press 150 120), MouseMove (press 5000 120)]) = ''4850px 0px''
   \<and> \<not> translation_within
        (run rt_ex (inst_on env_nan page_ex True True)
          [MouseDown env_nan (press 150 120), MouseMove (press 5000 120)])
        (measured_thresholds rt_ex env_nan
          (run rt_ex (inst_on env_nan page_ex True True)
            [MouseDown env_nan (press 150 120), MouseMove (press 5000 120)]))
   \<and> style_translate (run rt_ex (inst_ex True True)
      [MouseDown env_ex (press 150 120), MouseMove (press 700 120)]) = ''550px 0px''
   \<and> measured_thresholds rt_ex env_narrow
        (run rt_ex (inst_ex True True) [MouseDown env_ex (press 150 120), MouseMove (press 700 120)]) =
      (Num 500, Num 550)
   \<and> \<not> translation_within
        (run rt_ex (inst_ex True True) [MouseDown env_ex (press 150 120), MouseMove (press 700 120)])
        (measured_thresholds rt_ex env_narrow
          (run rt_ex (inst_ex True True) [MouseDown env_ex (press 150 120), MouseMove (press 700 120)]))
   \<and> \<not> position_within
        (run rt_ex (inst_ex True True) [MouseDown env_ex (press 150 120), MouseMove (press 700 120)])
        (measured_thresholds rt_ex env_narrow
          (run rt_ex (inst_ex True True) [MouseDown env_ex (press 150 120), MouseMove (press 700 120)]))"
  by (simp add: run_def mousedown_def drag_def getThresholds_def translation_within_def
      position_within_def axis_ok_def measured_thresholds_def assign_translate_def
      translate_css_def env_nan_def env_narrow_def ex_defs)

section \<open>Reconciliation of a stored offset\<close>

text \<open>
  C3: reconciling a stored offset that is already valid should return it unchanged.
  \<^verbatim>\<open>_getPos\<close> takes the pixel offset as the measured box minus the offset it was given,
  not minus the translation the element is rendered with, so what it clamps is the
  measured box, whatever the offset. An element whose box is measured at (-10, 100) is
  constructed on a page that stores the offset (20, 0), which lies in
  \<open>[0, 700] \<times> [0, 550]\<close> and puts the element at (10, 100): the restore records and
  renders (30, 0).
\<close>

theorem stored_offset_in_range_changed_on_restore:
  \<open>(case constructor rt_ex env_left (Some ''box'') ElementNode ElementNode True True page_20 of
      Inl err \<Rightarrow> False
    | Inr s \<Rightarrow>
        offset_in_range s (20, 0)
      \<and> dataset_translate s = Some ''{"x":30, "y":0}''
      \<and> style_translate s = ''30px 0px'')\<close>
  by (simp add: offset_in_range_def getPos_def getThresholds_def assign_translate_def
      translate_attr_def translate_css_def env_left_def page_20_def ex_defs)

section \<open>A container smaller than the element\<close>

lemma clamp_axis_negative:
  assumes ex: "exact_on_integers rt" and mx: "whole (4 * pxmax) mx" and l: "px l" and neg: "mx < 0"
  shows "clamp_axis (fl rt) mx l = (if mx < l then mx else 0) - l"
proof -
  have "whole pxmax l" using l by (simp add: px_def)
  from whole_diff [OF mx this] have "whole (5 * pxmax) (mx - l)" by simp
  from fl_exact [OF ex this] pxmax_bounds have "fl rt (mx - l) = mx - l" by simp
  then show ?thesis using neg by (simp add: clamp_axis_def)
qed

lemma getThresholds_fst:
  "thresholdX s = Num mx \<Longrightarrow> fst (getThresholds rt s t (Num l)) = Num (clamp_axis (fl rt) mx l)"
  by (simp add: getThresholds_def clamp_axis_def Let_def)

lemma getThresholds_snd:
  "thresholdY s = Num my \<Longrightarrow> snd (getThresholds rt s (Num t) l) = Num (clamp_axis (fl rt) my t)"
  by (simp add: getThresholds_def clamp_axis_def Let_def)

lemma negative_threshold_setup:
  assumes ex: "exact_on_integers rt" and "px b1" "px b2" "px w" "px c" "c < w + (b1 + b2)"
  shows "\<exists>m. nsub rt (Num c) (nadd rt (Num w) (nadd rt (Num b1) (Num b2))) = Num m
           \<and> whole (4 * pxmax) m \<and> m < 0"
proof -
  note b = pxmax_bounds
  have w: "whole pxmax b1" "whole pxmax b2" "whole pxmax w" "whole pxmax c"
    using assms by (simp_all add: px_def)
  have 1: "whole (2 * pxmax) (b1 + b2)" using whole_add [OF w(1,2)] by simp
  have 2: "whole (3 * pxmax) (w + (b1 + b2))" using whole_add [OF w(3) 1] by simp
  have 3: "whole (4 * pxmax) (c - (w + (b1 + b2)))" using whole_diff [OF w(4) 2] by simp
  have "nsub rt (Num c) (nadd rt (Num w) (nadd rt (Num b1) (Num b2))) = Num (c - (w + (b1 + b2)))"
    using fl_exact [OF ex 1] fl_exact [OF ex 2] fl_exact [OF ex 3] b by simp
  with 3 assms(6) show ?thesis by simp
qed

text \<open>
  C8, as amended: on each axis by itself and in whole pixels, when the container is
  smaller than the element with its borders the threshold that the setup stores is
  negative, and for a negative threshold the clamp still returns a correction for every
  proposed coordinate: a coordinate greater than the threshold is corrected to the
  threshold itself, a coordinate at or below the threshold is corrected to 0.
\<close>

theorem negative_threshold_is_clamp_target:
  assumes ex: "exact_on_integers rt" and stp: "setProperties rt ev s = Inr s'"
  shows "(thresholdX t = Num mx \<and> whole (4 * pxmax) mx \<and> mx < 0 \<and> px l \<longrightarrow>
            fst (getThresholds rt t tp (Num l)) = Num ((if mx < l then mx else 0) - l))
       \<and> (thresholdY t = Num my \<and> whole (4 * pxmax) my \<and> my < 0 \<and> px l \<longrightarrow>
            snd (getThresholds rt t (Num l) lf) = Num ((if my < l then my else 0) - l))
       \<and> (borderLeft ev = Num bl \<and> borderRight ev = Num br \<and> px bl \<and> px br
          \<and> px (r_width (boundingClientRect ev))
          \<and> px (fst (container rt ev (Some (css_position ev))))
          \<and> fst (container rt ev (Some (css_position ev))) <
              r_width (boundingClientRect ev) + (bl + br) \<longrightarrow>
            (\<exists>m. thresholdX s' = Num m \<and> whole (4 * pxmax) m \<and> m < 0))
       \<and> (borderTop ev = Num bt \<and> borderBottom ev = Num bb \<and> px bt \<and> px bb
          \<and> px (r_height (boundingClientRect ev))
          \<and> px (snd (container rt ev (Some (css_position ev))))
          \<and> snd (container rt ev (Some (css_position ev))) <
              r_height (boundingClientRect ev) + (bt + bb) \<longrightarrow>
            (\<exists>m. thresholdY s' = Num m \<and> whole (4 * pxmax) m \<and> m < 0))"
proof -
  have a: "thresholdX t = Num mx \<and> whole (4 * pxmax) mx \<and> mx < 0 \<and> px l \<longrightarrow>
            fst (getThresholds rt t tp (Num l)) = Num ((if mx < l then mx else 0) - l)"
    using clamp_axis_negative [OF ex, of mx l] by (simp add: getThresholds_fst)
  have b: "thresholdY t = Num my \<and> whole (4 * pxmax) my \<and> my < 0 \<and> px l \<longrightarrow>
            snd (getThresholds rt t (Num l) lf) = Num ((if my < l then my else 0) - l)"
    using clamp_axis_negative [OF ex, of my l] by (simp add: getThresholds_snd)
  have x: "thresholdX s' =
      nsub rt (Num (fst (container rt ev (Some (css_position ev)))))
        (nadd rt (Num (r_width (boundingClientRect ev))) (nadd rt (borderLeft ev) (borderRight ev)))"
    and y: "thresholdY s' =
      nsub rt (Num (snd (container rt ev (Some (css_position ev)))))
        (nadd rt (Num (r_height (boundingClientRect ev))) (nadd rt (borderTop ev) (borderBottom ev)))"
    using stp by (auto simp add: setProperties_def Let_def split: if_splits)
  have c: "borderLeft ev = Num bl \<and> borderRight ev = Num br \<and> px bl \<and> px br
          \<and> px (r_width (boundingClientRect ev))
          \<and> px (fst (container rt ev (Some (css_position ev))))
          \<and> fst (container rt ev (Some (css_position ev))) <
              r_width (boundingClientRect ev) + (bl + br) \<longrightarrow>
            (\<exists>m. thresholdX s' = Num m \<and> whole (4 * pxmax) m \<and> m < 0)"
    using negative_threshold_setup [OF ex, of bl br "r_width (boundingClientRect ev)"
        "fst (container rt ev (Some (css_position ev)))"]
    unfolding x by auto
  have d: "borderTop ev = Num bt \<and> borderBottom ev = Num bb \<and> px bt \<and> px bb
          \<and> px (r_height (boundingClientRect ev))
          \<and> px (snd (container rt ev (Some (css_position ev))))
          \<and> snd (container rt ev (Some (css_position ev))) <
              r_height (boundingClientRect ev) + (bt + bb) \<longrightarrow>
            (\<exists>m. thresholdY s' = Num m \<and> whole (4 * pxmax) m \<and> m < 0)"
    using negative_threshold_setup [OF ex, of bt bb "r_height (boundingClientRect ev)"
        "snd (container rt ev (Some (css_position ev)))"]
    unfolding y by auto
  from a b c d show ?thesis by blast
qed

lemma slim_ex_eq:
  "setProperties rt_ex env_slim (new_instance ''box'' False True page_ex) = Inr slim_ex"
  by (simp add: slim_ex_def env_slim_def env_small_def ex_defs)

lemma whole_numeral: "whole (4 * pxmax) (- 50)" "whole (4 * pxmax) (- 20)" "px 10" "px (- 30)" "px 50" "px 30"
  by (simp_all add: px_def whole_def pxmax_def)

lemma small_ex_eq:
  "setProperties rt_ex env_small (new_instance ''box'' False True page_ex) = Inr small_ex"
  by (simp add: small_ex_def env_small_def ex_defs)

theorem negative_threshold_is_clamp_target_witness:
  "setProperties rt_ex env_slim (new_instance ''box'' False True page_ex) = Inr slim_ex
   \<and> fst (container rt_ex env_slim (Some (css_position env_slim))) <
       r_width (boundingClientRect env_slim) + (0 + 0)
   \<and> thresholdX slim_ex = Num (- 50) \<and> thresholdY slim_ex = Num 550
   \<and> fst (getThresholds rt_ex slim_ex (Num 20) (Num 10)) = Num (- 60)
   \<and> setProperties rt_ex env_small (new_instance ''box'' False True page_ex) = Inr small_ex
   \<and> snd (container rt_ex env_small (Some (css_position env_small))) <
       r_height (boundingClientRect env_small) + (0 + 0)
   \<and> thresholdY small_ex = Num (- 20)
   \<and> snd (getThresholds rt_ex small_ex (Num (- 30)) (Num 10)) = Num 30"
proof -
  have t: "thresholdX slim_ex = Num (- 50)" "thresholdY slim_ex = Num 550"
    "thresholdY small_ex = Num (- 20)"
    by (simp_all add: slim_ex_def small_ex_def env_slim_def env_small_def ex_defs)
  have c: "fst (container rt_ex env_slim (Some (css_position env_slim))) <
       r_width (boundingClientRect env_slim) + (0 + 0)"
    "borderLeft env_slim = Num 0" "borderRight env_slim = Num 0"
    "px (r_width (boundingClientRect env_slim))"
    "px (fst (container rt_ex env_slim (Some (css_position env_slim))))"
    by (simp_all add: px_numeral whole_numeral env_slim_def env_small_def ex_defs)
  have d: "snd (container rt_ex env_small (Some (css_position env_small))) <
       r_height (boundingClientRect env_small) + (0 + 0)"
    "borderTop env_small = Num 0" "borderBottom env_small = Num 0"
    "px (r_height (boundingClientRect env_small))"
    "px (snd (container rt_ex env_small (Some (css_position env_small))))"
    by (simp_all add: px_numeral whole_numeral env_small_def ex_defs)
  note k = negative_threshold_is_clamp_target [OF rt_ex_exact slim_ex_eq,
      where bl = 0 and br = 0]
  note j = negative_threshold_is_clamp_target [OF rt_ex_exact small_ex_eq,
      where bt = 0 and bb = 0]
  from k [where t = slim_ex and mx = "- 50" and l = 10 and tp = "Num 20"] t whole_numeral
  have x: "fst (getThresholds rt_ex slim_ex (Num 20) (Num 10)) = Num (- 60)" by simp
  from j [where t = small_ex and my = "- 20" and l = "- 30" and lf = "Num 10"] t whole_numeral
  have y: "snd (getThresholds rt_ex small_ex (Num (- 30)) (Num 10)) = Num 30" by simp
  from k c px_numeral have "\<exists>m. thresholdX slim_ex = Num m \<and> whole (4 * pxmax) m \<and> m < 0"
    by blast
  moreover from j d px_numeral
  have "\<exists>m. thresholdY small_ex = Num m \<and> whole (4 * pxmax) m \<and> m < 0"
    by blast
  ultimately show ?thesis using slim_ex_eq small_ex_eq c d t x y by blast
qed

text \<open>
  So the element is not pinned to the origin edge: resting there, at (0, 0), it is
  corrected to the negative threshold.
\<close>

theorem negative_threshold_leaves_origin:
  "thresholdX small_ex = Num (- 50)
   \<and> getThresholds rt_ex small_ex (Num 0) (Num 0) = (Num (- 50), Num (- 20))
   \<and> \<not> pinned_to_origin rt_ex small_ex (Num 0)"
  by (simp add: pinned_to_origin_def getThresholds_def small_ex_def env_small_def ex_defs)

section \<open>Disabled instances\<close>

text \<open>\<^verbatim>\<open>stop()\<close> touches neither the style of the element nor the store.\<close>

lemma stop_frame:
  "style_translate (stop s) = style_translate s \<and> storage (stop s) = storage s"
  by (simp add: stop_def removeListeners_def)

text \<open>An instance disabled by \<^verbatim>\<open>stop()\<close> has no \<^verbatim>\<open>storage\<close> listener left: a change
  notification does not reach it.\<close>

lemma stopped_ignores_notification:
  "enabled s \<Longrightarrow> step rt (stop s) (StorageChange ev e) = stop s"
  by (simp add: stop_def removeListeners_def)

text \<open>
  C5: an instance whose enabled flag is false should not process change notifications.
  The constructor registers the \<^verbatim>\<open>storage\<close> listener also when \<open>enabled\<close> is false, and
  \<^verbatim>\<open>_onStorage\<close> does not look at the flag: on the instance constructed with
  \<open>enabled = false\<close>, a notification for its identifier with the value
  \<^verbatim>\<open>{"x":5,"y":7}\<close> changes the recorded offset from nothing to \<^verbatim>\<open>{"x":5, "y":7}\<close> and
  the rendered translation from nothing to \<open>5px 7px\<close>.
\<close>

theorem disabled_instance_processes_notification:
  \<open>\<not> enabled (inst_ex True False) \<and> on_storage (inst_ex True False)
   \<and> dataset_translate (inst_ex True False) = None
   \<and> style_translate (inst_ex True False) = []
   \<and> dataset_translate (step rt_ex (inst_ex True False)
        (StorageChange env_ex \<lparr>key = Some ''box'', newValue = Some ''{"x":5,"y":7}''\<rparr>)) =
       Some ''{"x":5, "y":7}''
   \<and> style_translate (step rt_ex (inst_ex True False)
        (StorageChange env_ex \<lparr>key = Some ''box'', newValue = Some ''{"x":5,"y":7}''\<rparr>)) =
       ''5px 7px''\<close>
  by (simp add: onStorage_def getPos_def getThresholds_def assign_translate_def
      translate_attr_def translate_css_def ex_defs)

text \<open>
  C6: \<^verbatim>\<open>stop()\<close> should reset the visual offset to zero and keep the persisted data.
  After a drag that rendered \<open>-50px 0px\<close> and stored it, \<^verbatim>\<open>stop()\<close> resets the recorded
  annotation and keeps the store entry, but the rendered translation is still
  \<open>-50px 0px\<close>.
\<close>

theorem stop_keeps_rendered_translation:
  \<open>style_translate (run rt_ex (inst_ex True True)
      [MouseDown env_ex (press 150 120), MouseMove (press 100 120), MouseUp (press 100 120)]) =
     ''-50px 0px''
   \<and> style_translate (run rt_ex (inst_ex True True)
      [MouseDown env_ex (press 150 120), MouseMove (press 100 120), MouseUp (press 100 120), Stop]) =
     ''-50px 0px''
   \<and> dataset_translate (run rt_ex (inst_ex True True)
      [MouseDown env_ex (press 150 120), MouseMove (press 100 120), MouseUp (press 100 120), Stop]) =
     Some ''{"x":0,"y":0}''
   \<and> storage (run rt_ex (inst_ex True True)
      [MouseDown env_ex (press 150 120), MouseMove (press 100 120), MouseUp (press 100 120), Stop])
      ''box'' = Some ''{"x":-50,"y":0}''\<close>
  by (simp add: run_def mousedown_def drag_def stopDrag_def stop_def removeListeners_def
      getThresholds_def assign_translate_def translate_attr_def translate_css_def ex_defs)

section \<open>Persistence switched off\<close>

text \<open>What each method does to the \<open>store\<close> flag and to the store.\<close>

lemma setProperties_store:
  "store (after (setProperties rt ev s)) = store s
   \<and> id_s (after (setProperties rt ev s)) = id_s s
   \<and> storage (after (setProperties rt ev s)) \<subseteq>\<^sub>m storage s
   \<and> (\<not> store s \<longrightarrow> storage (after (setProperties rt ev s)) (id_s s) = None)"
  by (simp add: setProperties_def Let_def map_le_def)

lemma getPos_store:
  "store (snd (getPos rt ev d s)) = store s \<and> storage (snd (getPos rt ev d s)) = storage s"
  by (simp add: getPos_def Let_def)

lemma updatePos_store:
  "store (updatePos rt ev v s) = store s \<and> storage (updatePos rt ev v s) = storage s"
  by (simp add: updatePos_def Let_def assign_translate_def case_prod_beta getPos_store
      split: option.splits)

lemma mousedown_store:
  "store (after (mousedown rt ev e s)) = store s \<and> storage (after (mousedown rt ev e s)) = storage s"
  by (simp add: mousedown_def Let_def)

lemma drag_store:
  "store (drag rt e s) = store s \<and> storage (drag rt e s) = storage s"
  by (simp add: drag_def Let_def assign_translate_def)

lemma stopDrag_store:
  "store (stopDrag rt e s) = store s \<and> (\<not> store s \<longrightarrow> storage (stopDrag rt e s) = storage s)"
  by (simp add: stopDrag_def Let_def)

lemma start_store:
  "store (after (start rt ev s)) = store s \<and> storage (after (start rt ev s)) \<subseteq>\<^sub>m storage s"
proof (cases "enabled s")
  case True
  then show ?thesis by (simp add: start_def)
next
  case False
  obtain s1 where s1: "setProperties rt ev s = Inr s1"
    using False by (cases "store s") (simp_all add: setProperties_def Let_def)
  from setProperties_store [of rt ev s] s1
  have "store s1 = store s" "storage s1 \<subseteq>\<^sub>m storage s" by simp_all
  then show ?thesis
    using False s1 updatePos_store [of rt ev _ s1] by (simp add: start_def restorePos_def)
qed

lemma step_store:
  assumes ns: "\<not> store s"
  shows "\<not> store (step rt s op) \<and> storage (step rt s op) \<subseteq>\<^sub>m storage s"
proof (cases op)
  case (MouseDown ev e)
  then show ?thesis using ns mousedown_store [of rt ev e s] by simp
next
  case (MouseMove e)
  then show ?thesis using ns drag_store [of rt e s] by simp
next
  case (MouseUp e)
  then show ?thesis using ns stopDrag_store [of rt e "s\<lparr>on_mouseup := False\<rparr>"] by simp
next
  case (StorageChange ev e)
  then show ?thesis using ns updatePos_store [of rt ev "newValue e" s] by (simp add: onStorage_def)
next
  case (Start ev)
  then show ?thesis using ns start_store [of rt ev s] by simp
next
  case Stop
  then show ?thesis using ns by (simp add: stop_def removeListeners_def)
next
  case RemoveListeners
  then show ?thesis using ns by (simp add: removeListeners_def)
qed

lemma run_store:
  "\<not> store s \<Longrightarrow> storage (run rt s ops) \<subseteq>\<^sub>m storage s"
proof (induction ops arbitrary: s)
  case Nil
  then show ?case by (simp add: run_def)
next
  case (Cons op ops)
  from step_store [OF Cons.prems, of rt op]
  have a: "\<not> store (step rt s op)" and b: "storage (step rt s op) \<subseteq>\<^sub>m storage s" by simp_all
  from Cons.IH [OF a] b show ?case
    by (simp add: run_def) (blast intro: map_le_trans)
qed

lemma idle_ex_constructed:
  "constructor rt_ex env_ex (Some ''box'') ElementNode ElementNode False False page_stored =
     Inr idle_ex"
  by (simp add: idle_ex_def constructor_def new_instance_def)

text \<open>
  C7: with \<open>store = false\<close>, no sequence of events and calls writes a value to the store
  (every key still present afterwards holds the value it held before), the setup
  \<^verbatim>\<open>_setProperties\<close> removes the value stored under the identifier, also when it throws,
  and so does the construction of an enabled instance.
\<close>

theorem no_persistence_never_writes:
  assumes "\<not> store s" and "i \<noteq> []"
  shows "storage (run rt s ops) \<subseteq>\<^sub>m storage s
       \<and> storage (after (setProperties rt ev s)) (id_s s) = None
       \<and> (case constructor rt ev (Some i) ElementNode ElementNode False True p of
            Inl (err, p') \<Rightarrow> storage p' i = None \<and> storage p' \<subseteq>\<^sub>m storage p
          | Inr s' \<Rightarrow> storage s' i = None \<and> storage s' \<subseteq>\<^sub>m storage p \<and> \<not> store s')"
proof -
  have a: "storage (run rt s ops) \<subseteq>\<^sub>m storage s" using assms(1) by (rule run_store)
  have b: "storage (after (setProperties rt ev s)) (id_s s) = None"
    using assms(1) setProperties_store [of rt ev s] by simp
  have c: "(case constructor rt ev (Some i) ElementNode ElementNode False True p of
            Inl (err, p') \<Rightarrow> storage p' i = None \<and> storage p' \<subseteq>\<^sub>m storage p
          | Inr s' \<Rightarrow> storage s' i = None \<and> storage s' \<subseteq>\<^sub>m storage p \<and> \<not> store s')"
    using assms(2)
    by (simp add: constructor_def new_instance_def setProperties_def restorePos_def updatePos_def
        Let_def page.truncate_def map_le_def)
  from a b c show ?thesis by blast
qed

theorem no_persistence_never_writes_witness:
  \<open>\<not> store idle_ex \<and> ''box'' \<noteq> []
   \<and> storage idle_ex ''box'' = Some ''{"x":5,"y":7}''
   \<and> storage (run rt_ex idle_ex [Start env_ex, MouseDown env_ex (press 150 120),
        MouseMove (press 100 120), MouseUp (press 100 120)]) \<subseteq>\<^sub>m storage idle_ex
   \<and> storage (run rt_ex idle_ex [Start env_ex, MouseDown env_ex (press 150 120),
        MouseMove (press 100 120), MouseUp (press 100 120)]) ''box'' = None
   \<and> dataset_translate (run rt_ex idle_ex [Start env_ex, MouseDown env_ex (press 150 120),
        MouseMove (press 100 120), MouseUp (press 100 120)]) = Some ''{"x":-50, "y":0}''
   \<and> storage (after (setProperties rt_ex env_ex idle_ex)) (id_s idle_ex) = None
   \<and> (case constructor rt_ex env_ex (Some ''box'') ElementNode ElementNode False True page_stored of
         Inl (err, p') \<Rightarrow> False
       | Inr s' \<Rightarrow> storage s' ''box'' = None \<and> storage s' \<subseteq>\<^sub>m storage page_stored \<and> \<not> store s')\<close>
proof -
  have a: "\<not> store idle_ex" by (simp add: idle_ex_def new_instance_def)
  have b: "''box'' \<noteq> []" by simp
  have c: \<open>storage idle_ex ''box'' = Some ''{"x":5,"y":7}''\<close>
    by (simp add: idle_ex_def new_instance_def page_stored_def)
  have d: "storage (run rt_ex idle_ex [Start env_ex, MouseDown env_ex (press 150 120),
        MouseMove (press 100 120), MouseUp (press 100 120)]) ''box'' = None"
    by (simp add: run_def start_def mousedown_def drag_def stopDrag_def getThresholds_def
        assign_translate_def idle_ex_def page_stored_def ex_defs)
  have e: \<open>dataset_translate (run rt_ex idle_ex [Start env_ex, MouseDown env_ex (press 150 120),
        MouseMove (press 100 120), MouseUp (press 100 120)]) = Some ''{"x":-50, "y":0}''\<close>
    by (simp add: run_def start_def mousedown_def drag_def stopDrag_def getThresholds_def
        assign_translate_def translate_attr_def idle_ex_def page_stored_def ex_defs)
  have f: "\<exists>s'. constructor rt_ex env_ex (Some ''box'') ElementNode ElementNode False True page_stored = Inr s'"
    by (simp add: page_stored_def ex_defs)
  from no_persistence_never_writes [OF a b, where rt = rt_ex and ev = env_ex and p = page_stored
      and ops = "[Start env_ex, MouseDown env_ex (press 150 120),
        MouseMove (press 100 120), MouseUp (press 100 120)]"]
  show ?thesis using a c d e f by (auto split: sum.splits)
qed

section \<open>Payloads that are no offsets\<close>






end
